theory Spec2Isabelle
  imports Main "HOL-Library.Sublist"
begin

section \<open>The table of contents of peach (models/toc.go)\<close>

text \<open>
  A shallow embedding of \<^verbatim>\<open>models/toc.go\<close>: front-matter parsing, content
  resolution of a node, lookup by path, search, and the reload of the registry.
  Go strings and byte slices are lists of bytes (\<^typ>\<open>string\<close>); Go's \<^verbatim>\<open>int\<close> is
  \<^typ>\<open>int\<close> (every number below is a length of an in-memory string plus at most 236, far
  from \<open>2^63\<close>). A run-time panic is the left summand of a result; a call that does
  not return is \<open>None\<close>. What the code prints to standard output is left out, and so is
  the lock of \<^verbatim>\<open>ReloadDocs\<close>: the model is sequential.
\<close>

subsection \<open>Run-time panics and error values\<close>

datatype panic =
    NilDeref            \<comment> \<open>nil pointer dereference\<close>
  | IndexOutOfRange     \<comment> \<open>index out of range\<close>
  | SliceBounds         \<comment> \<open>slice bounds out of range\<close>

datatype goerror =
    ReadFailed          \<comment> \<open>\<^verbatim>\<open>ioutil.ReadFile\<close> failed\<close>
  | AbsFailed           \<comment> \<open>\<^verbatim>\<open>filepath.Abs\<close> failed\<close>
  | PullFailed          \<comment> \<open>"Fail to update docs from remote source"\<close>
  | CloneFailed         \<comment> \<open>"Fail to clone docs from remote source"\<close>
  | DocsNotFound        \<comment> \<open>"Documentation not found"\<close>
  | TocNotFound         \<comment> \<open>"TOC not found"\<close>
  | TocLoadFailed       \<comment> \<open>"Fail to load TOC.ini"\<close>
  | InitTocFailed goerror  \<comment> \<open>"initToc: ..." wrapping the loader's error\<close>

subsection \<open>The string functions of the Go library that the code calls\<close>

text \<open>
  \<^verbatim>\<open>s[lo:hi]\<close> and \<^verbatim>\<open>s[lo:]\<close> panic unless \<open>0 \<le> lo \<le> hi \<le> len(s)\<close>.
\<close>

definition slice :: "string \<Rightarrow> int \<Rightarrow> int \<Rightarrow> panic + string" where
  "slice s lo hi =
     (if 0 \<le> lo \<and> lo \<le> hi \<and> hi \<le> int (length s)
      then Inr (take (nat hi - nat lo) (drop (nat lo) s))
      else Inl SliceBounds)"

definition slice_from :: "string \<Rightarrow> int \<Rightarrow> panic + string" where
  "slice_from s lo = slice s lo (int (length s))"

text \<open>
  \<^verbatim>\<open>strings.Index\<close> / \<^verbatim>\<open>bytes.Index\<close>: the offset of the first occurrence of
  \<open>sep\<close> in \<open>s\<close>, or \<open>-1\<close>.
\<close>

fun Index :: "string \<Rightarrow> string \<Rightarrow> int" where
  "Index [] sep = (if sep = [] then 0 else - 1)"
| "Index (c # cs) sep =
     (if prefix sep (c # cs) then 0
      else (let r = Index cs sep in if r < 0 then - 1 else r + 1))"

text \<open>
  \<^verbatim>\<open>strings.Split\<close> and \<^verbatim>\<open>strings.SplitN\<close> for a non-empty separator (the code
  splits on \<^verbatim>\<open>"\n"\<close>, \<^verbatim>\<open>":"\<close> and \<^verbatim>\<open>"/"\<close> only). The library's \<^verbatim>\<open>genSplit\<close> cuts
  at most \<open>n - 1\<close> times and stops at the first miss of \<^verbatim>\<open>Index\<close>; \<^verbatim>\<open>Split\<close> asks for
  \<open>Count(s, sep) + 1\<close> pieces, and any bound of at least \<open>Count(s, sep)\<close> cuts, such as
  \<open>len(s)\<close>, gives the same pieces.
\<close>

fun genSplit :: "string \<Rightarrow> string \<Rightarrow> nat \<Rightarrow> string list" where
  "genSplit s sep 0 = [s]"
| "genSplit s sep (Suc n) =
     (let m = Index s sep in
      if m < 0 then [s]
      else take (nat m) s # genSplit (drop (nat m + length sep) s) sep n)"

definition Split :: "string \<Rightarrow> string \<Rightarrow> string list" where
  "Split s sep = genSplit s sep (length s)"

definition SplitN :: "string \<Rightarrow> string \<Rightarrow> nat \<Rightarrow> string list" where
  "SplitN s sep n = (if n = 0 then [] else genSplit s sep (n - 1))"

definition TrimPrefix :: "string \<Rightarrow> string \<Rightarrow> string" where
  "TrimPrefix s p = (if prefix p s then drop (length p) s else s)"

text \<open>
  \<^verbatim>\<open>strings.TrimSpace\<close> / \<^verbatim>\<open>bytes.TrimSpace\<close> remove the leading and the trailing
  white-space runes of \<^verbatim>\<open>unicode.IsSpace\<close>. On bytes: a rune decoded at either end is
  white space exactly when the bytes there are the UTF-8 encoding of one of
  U+0009..U+000D, U+0020, U+0085, U+00A0, U+1680, U+2000..U+200A, U+2028, U+2029, U+202F,
  U+205F, U+3000.
\<close>

definition space_runes :: "string list" where
  "space_runes =
     [[CHR 0x09], [CHR 0x0A], [CHR 0x0B], [CHR 0x0C], [CHR 0x0D], [CHR 0x20],
      [CHR 0xC2, CHR 0x85], [CHR 0xC2, CHR 0xA0],
      [CHR 0xE1, CHR 0x9A, CHR 0x80],
      [CHR 0xE2, CHR 0x80, CHR 0x80], [CHR 0xE2, CHR 0x80, CHR 0x81],
      [CHR 0xE2, CHR 0x80, CHR 0x82], [CHR 0xE2, CHR 0x80, CHR 0x83],
      [CHR 0xE2, CHR 0x80, CHR 0x84], [CHR 0xE2, CHR 0x80, CHR 0x85],
      [CHR 0xE2, CHR 0x80, CHR 0x86], [CHR 0xE2, CHR 0x80, CHR 0x87],
      [CHR 0xE2, CHR 0x80, CHR 0x88], [CHR 0xE2, CHR 0x80, CHR 0x89],
      [CHR 0xE2, CHR 0x80, CHR 0x8A],
      [CHR 0xE2, CHR 0x80, CHR 0xA8], [CHR 0xE2, CHR 0x80, CHR 0xA9],
      [CHR 0xE2, CHR 0x80, CHR 0xAF], [CHR 0xE2, CHR 0x81, CHR 0x9F],
      [CHR 0xE3, CHR 0x80, CHR 0x80]]"

text \<open>The number of bytes of the white-space rune that \<open>s\<close> starts with, \<open>0\<close> if none.\<close>

definition space_width :: "string list \<Rightarrow> string \<Rightarrow> nat" where
  "space_width runes s =
     (case find (\<lambda>r. prefix r s) runes of None \<Rightarrow> 0 | Some r \<Rightarrow> length r)"

function TrimLeftRunes :: "string list \<Rightarrow> string \<Rightarrow> string" where
  "TrimLeftRunes runes s =
     (if space_width runes s = 0 then s
      else TrimLeftRunes runes (drop (space_width runes s) s))"
  by pat_completeness auto
termination
proof (relation "measure (\<lambda>(runes, s). length s)")
  show "wf (measure (\<lambda>(runes, s). length s))" by simp
next
  fix runes :: "string list" and s :: string
  assume w: "space_width runes s \<noteq> 0"
  then obtain r where "find (\<lambda>r. prefix r s) runes = Some r" and "length r \<noteq> 0"
    by (auto simp: space_width_def split: option.splits)
  then have "prefix r s" and "r \<noteq> []"
    by (auto simp: find_Some_iff)
  then have "s \<noteq> []" by auto
  with w show "((runes, drop (space_width runes s) s), (runes, s))
        \<in> measure (\<lambda>(runes, s). length s)"
    by simp
qed

declare TrimLeftRunes.simps [simp del]

definition TrimSpace :: "string \<Rightarrow> string" where
  "TrimSpace s =
     rev (TrimLeftRunes (map rev space_runes) (rev (TrimLeftRunes space_runes s)))"

subsection \<open>Front matter: \<^verbatim>\<open>parseNodeName\<close>\<close>

text \<open>
  The loop over the lines of the front-matter block: a line that \<^verbatim>\<open>SplitN(opt, ":", 2)\<close>
  cuts in two and whose key is \<^verbatim>\<open>name\<close> sets the title.
\<close>

fun scan_opts :: "string \<Rightarrow> string list \<Rightarrow> string" where
  "scan_opts title [] = title"
| "scan_opts title (opt # opts) =
     (let infos = SplitN opt '':'' 2 in
      if length infos \<noteq> 2 then scan_opts title opts
      else if TrimSpace (infos ! 0) = ''name'' then scan_opts (TrimSpace (infos ! 1)) opts
      else scan_opts title opts)"

definition parseNodeName :: "string \<Rightarrow> string \<Rightarrow> panic + (string \<times> string)" where
  "parseNodeName name raw =
     (let data = TrimSpace raw in
      if length data < 3 then Inr (name, [])
      else if take 3 data \<noteq> ''---'' then Inr (name, [])
      else
        let endIdx = Index (drop 3 data) ''---'' + 3 in
        if endIdx = - 1 then Inr (name, [])
        else
          (case slice data 3 endIdx of
             Inl p \<Rightarrow> Inl p
           | Inr block \<Rightarrow>
               let opts = Split (TrimSpace block) [CHR 0x0A];
                   title = scan_opts name opts
               in (case slice_from data (endIdx + 3) of
                     Inl p \<Rightarrow> Inl p
                   | Inr body \<Rightarrow> Inr (title, body))))"

subsection \<open>Nodes, trees and the process state\<close>

text \<open>
  \<^verbatim>\<open>Nodes []*Node\<close> holds pointers, and \<^verbatim>\<open>ReloadContent\<close> writes through them, so nodes
  live in a store (\<open>heap\<close>) and the lists hold addresses; an address outside the store is
  a nil pointer. The unexported field \<^verbatim>\<open>content\<close> is \<open>None\<close> while it is nil.
\<close>

record Node =
  Name :: string
  Title :: string
  content :: "string option"
  Text :: string
  Plain :: bool
  FileName :: string
  Nodes :: "nat list"

record Toc =
  RootPath :: string
  Lang :: string
  TocNodes :: "nat list"    \<comment> \<open>the field \<^verbatim>\<open>Nodes\<close> of \<^verbatim>\<open>Toc\<close>\<close>
  Pages :: "nat list"

record SearchResult =
  RTitle :: string          \<comment> \<open>the field \<^verbatim>\<open>Title\<close> of \<^verbatim>\<open>SearchResult\<close>\<close>
  Path :: string
  Match :: string

text \<open>
  A parsed \<^verbatim>\<open>TOC.ini\<close>: each section name gives its keys and values in file order
  (a section that is not in the file has no keys).
\<close>

type_synonym ini = "string \<Rightarrow> (string \<times> string) list"

text \<open>The disk, as the calls of the code observe it.\<close>

record fs =
  is_file :: "string \<Rightarrow> bool"               \<comment> \<open>\<^verbatim>\<open>com.IsFile\<close>\<close>
  is_dir :: "string \<Rightarrow> bool"                \<comment> \<open>\<^verbatim>\<open>com.IsDir\<close>\<close>
  read_file :: "string \<Rightarrow> string option"    \<comment> \<open>\<^verbatim>\<open>ioutil.ReadFile\<close>, \<open>None\<close> on error\<close>
  ini_load :: "string \<Rightarrow> ini option"        \<comment> \<open>\<^verbatim>\<open>ini.Load\<close>, \<open>None\<close> on error\<close>

record state =
  heap :: "nat \<rightharpoonup> Node"
  next_addr :: nat                          \<comment> \<open>the next address \<^verbatim>\<open>&Node{...}\<close> allocates\<close>
  Tocs :: "string \<rightharpoonup> Toc"                  \<comment> \<open>the package variable \<^verbatim>\<open>Tocs\<close>\<close>
  disk :: fs
  logged :: "goerror list"                  \<comment> \<open>what \<^verbatim>\<open>log.Error\<close> has written\<close>

text \<open>
  The settings (package \<^verbatim>\<open>setting\<close>) and the functions of other packages and files, which
  are parameters of the model: the two Markdown renderers, \<^verbatim>\<open>ToLower\<close>, \<^verbatim>\<open>path.Join\<close>,
  \<^verbatim>\<open>filepath.Abs\<close>, the two git commands and \<^verbatim>\<open>initDocs\<close>. Go does not fix whether the
  operand \<^verbatim>\<open>n.Title\<close> of \<^verbatim>\<open>return n.Title, n.Content(), false\<close> is read before or after the
  call; \<open>title_first\<close> says which.
\<close>

record sys =
  ProdMode :: bool
  Langs :: "string list"
  DocsType :: string
  DocsTarget :: string
  markdown :: "string \<Rightarrow> string option"
  text_render :: "string \<Rightarrow> string"
  ToLower :: "string \<Rightarrow> string"
  path_join :: "string list \<Rightarrow> string"
  filepath_abs :: "string \<Rightarrow> string option"
  git_pull :: "fs \<Rightarrow> string \<Rightarrow> bool \<times> fs"
  git_clone :: "fs \<Rightarrow> string \<Rightarrow> string \<Rightarrow> bool \<times> fs"
  initDocs :: "(string \<rightharpoonup> Toc) \<Rightarrow> string \<Rightarrow> state \<Rightarrow> panic + state"
  title_first :: bool

subsection \<open>Content resolution: \<^verbatim>\<open>ReloadContent\<close> and \<^verbatim>\<open>Content\<close>\<close>

definition ReloadContent :: "sys \<Rightarrow> state \<Rightarrow> nat \<Rightarrow> panic + (goerror option \<times> state)" where
  "ReloadContent sys st a =
     (case heap st a of
        None \<Rightarrow> Inl NilDeref
      | Some n \<Rightarrow>
          (case read_file (disk st) (FileName n) of
             None \<Rightarrow> Inr (Some ReadFailed, st)
           | Some raw \<Rightarrow>
               (case parseNodeName (Name n) raw of
                  Inl p \<Rightarrow> Inl p
                | Inr (title, data) \<Rightarrow>
                    let plain = (length (TrimSpace data) = 0);
                        n1 = n\<lparr>Title := title, Plain := plain\<rparr>;
                        n2 = (if \<not> plain
                              then n1\<lparr>content := markdown sys data,
                                      Text := ToLower sys (text_render sys data)\<rparr>
                              else n1)
                    in Inr (None, st\<lparr>heap := (heap st)(a \<mapsto> n2)\<rparr>))))"

definition Content :: "sys \<Rightarrow> state \<Rightarrow> nat \<Rightarrow> panic + (string option \<times> state)" where
  "Content sys st a =
     (case (if \<not> ProdMode sys
            then (case ReloadContent sys st a of
                    Inl p \<Rightarrow> Inl p
                  | Inr (None, st') \<Rightarrow> Inr st'
                  | Inr (Some err, st') \<Rightarrow> Inr (st'\<lparr>logged := logged st' @ [err]\<rparr>))
            else Inr st) of
        Inl p \<Rightarrow> Inl p
      | Inr st' \<Rightarrow>
          (case heap st' a of
             None \<Rightarrow> Inl NilDeref
           | Some n \<Rightarrow> Inr (content n, st')))"

text \<open>
  A run of \<^verbatim>\<open>Content()\<close> calls on one node, the disk being as listed at each call (the
  file may be edited between two reads): the values returned, in order, and the last state.
\<close>

fun Content_seq :: "sys \<Rightarrow> state \<Rightarrow> nat \<Rightarrow> fs list \<Rightarrow> panic + (string option list \<times> state)" where
  "Content_seq sys st a [] = Inr ([], st)"
| "Content_seq sys st a (d # ds) =
     (case Content sys (st\<lparr>disk := d\<rparr>) a of
        Inl p \<Rightarrow> Inl p
      | Inr (c, st1) \<Rightarrow>
          (case Content_seq sys st1 a ds of
             Inl p \<Rightarrow> Inl p
           | Inr (cs, st2) \<Rightarrow> Inr (c # cs, st2)))"

subsection \<open>Lookup by path: \<^verbatim>\<open>GetDoc\<close>\<close>

text \<open>The statement \<^verbatim>\<open>return n.Title, n.Content(), false\<close> for the node at \<open>a\<close>.\<close>

definition return_doc ::
  "sys \<Rightarrow> state \<Rightarrow> nat \<Rightarrow> panic + ((string \<times> string option \<times> bool) \<times> state)" where
  "return_doc sys st a =
     (case heap st a of
        None \<Rightarrow> Inl NilDeref
      | Some n \<Rightarrow>
          (case Content sys st a of
             Inl p \<Rightarrow> Inl p
           | Inr (c, st') \<Rightarrow>
               (case heap st' a of
                  None \<Rightarrow> Inl NilDeref
                | Some n' \<Rightarrow>
                    Inr ((if title_first sys then Title n else Title n', c, False), st'))))"

text \<open>
  The loops \<^verbatim>\<open>for i := range nodes { if nodes[i].Name == name { ... return } }\<close>: the
  address of the first node of that name.
\<close>

fun find_named :: "(nat \<rightharpoonup> Node) \<Rightarrow> nat list \<Rightarrow> string \<Rightarrow> panic + nat option" where
  "find_named h [] name = Inr None"
| "find_named h (a # as) name =
     (case h a of
        None \<Rightarrow> Inl NilDeref
      | Some n \<Rightarrow> if Name n = name then Inr (Some a) else find_named h as name)"

text \<open>
  The nested loops of the file branch: the first child named \<open>file\<close> of a directory node
  named \<open>dir\<close>; a directory node of that name without such a child does not stop the scan.
\<close>

fun find_file :: "(nat \<rightharpoonup> Node) \<Rightarrow> nat list \<Rightarrow> string \<Rightarrow> string \<Rightarrow> panic + nat option" where
  "find_file h [] dir file = Inr None"
| "find_file h (a # as) dir file =
     (case h a of
        None \<Rightarrow> Inl NilDeref
      | Some n \<Rightarrow>
          if Name n = dir
          then (case find_named h (Nodes n) file of
                  Inl p \<Rightarrow> Inl p
                | Inr (Some c) \<Rightarrow> Inr (Some c)
                | Inr None \<Rightarrow> find_file h as dir file)
          else find_file h as dir file)"

text \<open>
  \<^verbatim>\<open>GetDoc\<close> calls itself on the tree of the first language, so it is a partial function:
  \<open>None\<close> is a call that does not return. The receiver \<open>t\<close> is \<open>None\<close> for a nil
  \<^verbatim>\<open>*Toc\<close> (what \<^verbatim>\<open>Tocs[lang]\<close> gives for a language that is not in the map).
  \<^verbatim>\<open>Split\<close> returns at least one piece, so \<^verbatim>\<open>infos[0]\<close> is in range, and so is
  \<^verbatim>\<open>infos[1]\<close> where the length is not 1.
\<close>

partial_function (option) GetDoc ::
  "sys \<Rightarrow> state \<Rightarrow> Toc option \<Rightarrow> string
     \<Rightarrow> (panic + ((string \<times> string option \<times> bool) \<times> state)) option" where
  "GetDoc sys st t name0 =
     (case t of
        None \<Rightarrow> Some (Inl NilDeref)
      | Some toc \<Rightarrow>
          let name = TrimPrefix name0 ''/'' in
          if length name = 0 then
            (case TocNodes toc of
               [] \<Rightarrow> Some (Inr (([], None, False), st))
             | a # _ \<Rightarrow>
                 (case heap st a of
                    None \<Rightarrow> Some (Inl NilDeref)
                  | Some n \<Rightarrow>
                      if Plain n then Some (Inr (([], None, False), st))
                      else Some (return_doc sys st a)))
          else
            let infos = Split name ''/'' in
            if length infos = 1 then
              (case find_named (heap st) (TocNodes toc) (infos ! 0) of
                 Inl p \<Rightarrow> Some (Inl p)
               | Inr None \<Rightarrow> Some (Inr (([], None, False), st))
               | Inr (Some a) \<Rightarrow> Some (return_doc sys st a))
            else
              (case find_file (heap st) (TocNodes toc) (infos ! 0) (infos ! 1) of
                 Inl p \<Rightarrow> Some (Inl p)
               | Inr None \<Rightarrow> Some (Inr (([], None, False), st))
               | Inr (Some a) \<Rightarrow>
                   (case heap st a of
                      None \<Rightarrow> Some (Inl NilDeref)
                    | Some n \<Rightarrow>
                        if is_file (disk st) (FileName n) then Some (return_doc sys st a)
                        else if Langs sys = [] then Some (Inl IndexOutOfRange)
                        else
                          Option.bind (GetDoc sys st (Tocs st (Langs sys ! 0)) name)
                            (\<lambda>r. Some (case r of
                                          Inl p \<Rightarrow> Inl p
                                        | Inr ((title, c, _), st') \<Rightarrow>
                                            Inr ((title, c, True), st'))))))"

subsection \<open>Search\<close>

definition adjustRange :: "int \<Rightarrow> int \<Rightarrow> int \<Rightarrow> int \<times> int" where
  "adjustRange start0 end0 len =
     (let start = start0 - 20;
          start = (if start < 0 then 0 else start);
          endp = end0 + 230;
          endp = (if endp > len then len else endp)
      in (start, endp))"

text \<open>
  The body of both loops for one node: a result if the (lowercased) query occurs in the
  node's text, with the path already computed.
\<close>

definition match_node :: "string \<Rightarrow> Node \<Rightarrow> string \<Rightarrow> panic + SearchResult option" where
  "match_node q n path =
     (let idx = Index (Text n) q in
      if idx > - 1 then
        (case adjustRange idx (idx + int (length q)) (int (length (Text n))) of
           (start, endp) \<Rightarrow>
             (case slice (Text n) start endp of
                Inl p \<Rightarrow> Inl p
              | Inr m \<Rightarrow> Inr (Some \<lparr>RTitle = Title n, Path = path, Match = m\<rparr>)))
      else Inr None)"

fun search_dirs ::
  "(nat \<rightharpoonup> Node) \<Rightarrow> string \<Rightarrow> nat list \<Rightarrow> SearchResult list \<Rightarrow> panic + SearchResult list" where
  "search_dirs h q [] results = Inr results"
| "search_dirs h q (a # as) results =
     (case h a of
        None \<Rightarrow> Inl NilDeref
      | Some n \<Rightarrow>
          (case match_node q n (Name n) of
             Inl p \<Rightarrow> Inl p
           | Inr None \<Rightarrow> search_dirs h q as results
           | Inr (Some r) \<Rightarrow> search_dirs h q as (results @ [r])))"

fun search_children ::
  "sys \<Rightarrow> (nat \<rightharpoonup> Node) \<Rightarrow> string \<Rightarrow> string \<Rightarrow> nat list \<Rightarrow> SearchResult list
     \<Rightarrow> panic + SearchResult list" where
  "search_children sys h q dir [] results = Inr results"
| "search_children sys h q dir (a # as) results =
     (case h a of
        None \<Rightarrow> Inl NilDeref
      | Some n \<Rightarrow>
          (case match_node q n (path_join sys [dir, Name n]) of
             Inl p \<Rightarrow> Inl p
           | Inr None \<Rightarrow> search_children sys h q dir as results
           | Inr (Some r) \<Rightarrow> search_children sys h q dir as (results @ [r])))"

fun search_files ::
  "sys \<Rightarrow> (nat \<rightharpoonup> Node) \<Rightarrow> string \<Rightarrow> nat list \<Rightarrow> SearchResult list
     \<Rightarrow> panic + SearchResult list" where
  "search_files sys h q [] results = Inr results"
| "search_files sys h q (a # as) results =
     (case h a of
        None \<Rightarrow> Inl NilDeref
      | Some d \<Rightarrow>
          (case search_children sys h q (Name d) (Nodes d) results of
             Inl p \<Rightarrow> Inl p
           | Inr results' \<Rightarrow> search_files sys h q as results'))"

text \<open>The result is a list; the nil slice of the empty query is the empty list.\<close>

definition Search :: "sys \<Rightarrow> state \<Rightarrow> Toc option \<Rightarrow> string \<Rightarrow> panic + SearchResult list" where
  "Search sys st t q0 =
     (if length q0 = 0 then Inr []
      else
        (case t of
           None \<Rightarrow> Inl NilDeref
         | Some toc \<Rightarrow>
             let q = ToLower sys q0 in
             (case search_dirs (heap st) q (TocNodes toc) [] of
                Inl p \<Rightarrow> Inl p
              | Inr results \<Rightarrow> search_files sys (heap st) q (TocNodes toc) results)))"

subsection \<open>The loader \<^verbatim>\<open>initToc\<close> and \<^verbatim>\<open>ReloadDocs\<close>\<close>

text \<open>
  \<^verbatim>\<open>Section(s).KeyStrings()\<close> and \<^verbatim>\<open>Section(s).Key(k).String()\<close> (the empty string for
  a key that is not there).
\<close>

definition KeyStrings :: "ini \<Rightarrow> string \<Rightarrow> string list" where
  "KeyStrings cfg s = map fst (cfg s)"

definition KeyString :: "ini \<Rightarrow> string \<Rightarrow> string \<Rightarrow> string" where
  "KeyString cfg s k = (case map_of (cfg s) k of None \<Rightarrow> [] | Some v \<Rightarrow> v)"

text \<open>\<^verbatim>\<open>&Node{Name: name, FileName: file}\<close>, with \<^verbatim>\<open>Nodes\<close> given: a fresh address.\<close>

definition new_node :: "state \<Rightarrow> string \<Rightarrow> string \<Rightarrow> nat list \<Rightarrow> nat \<times> state" where
  "new_node st name file kids =
     (let a = next_addr st;
          n = \<lparr>Name = name, Title = [], content = None, Text = [], Plain = False,
               FileName = file, Nodes = kids\<rparr>
      in (a, st\<lparr>heap := (heap st)(a \<mapsto> n), next_addr := Suc a\<rparr>))"

text \<open>The loop over \<^verbatim>\<open>files[1:]\<close> of one directory: the child nodes, in order.\<close>

fun add_files ::
  "sys \<Rightarrow> ini \<Rightarrow> string \<Rightarrow> string \<Rightarrow> string \<Rightarrow> string list \<Rightarrow> state \<Rightarrow> nat list \<times> state" where
  "add_files sys cfg localRoot lang dirName [] st = ([], st)"
| "add_files sys cfg localRoot lang dirName (file # files) st =
     (let fileName = KeyString cfg dirName file;
          (a, st1) = new_node st fileName
                       (path_join sys [localRoot, lang, dirName, fileName] @ ''.md'') [];
          (as, st2) = add_files sys cfg localRoot lang dirName files st1
      in (a # as, st2))"

text \<open>The loop over the directories of the unnamed section; an empty directory is skipped.\<close>

fun add_dirs ::
  "sys \<Rightarrow> ini \<Rightarrow> string \<Rightarrow> string \<Rightarrow> string list \<Rightarrow> state \<Rightarrow> nat list \<times> state" where
  "add_dirs sys cfg localRoot lang [] st = ([], st)"
| "add_dirs sys cfg localRoot lang (dir # dirs) st =
     (let dirName = KeyString cfg [] dir;
          files = KeyStrings cfg dirName
      in if length files = 0 then add_dirs sys cfg localRoot lang dirs st
         else
           let (kids, st1) = add_files sys cfg localRoot lang dirName (tl files) st;
               (a, st2) = new_node st1 dirName
                            (path_join sys [localRoot, lang, dirName,
                                            KeyString cfg dirName (hd files)] @ ''.md'') kids;
               (as, st3) = add_dirs sys cfg localRoot lang dirs st2
           in (a # as, st3))"

fun add_pages ::
  "sys \<Rightarrow> ini \<Rightarrow> string \<Rightarrow> string \<Rightarrow> string list \<Rightarrow> state \<Rightarrow> nat list \<times> state" where
  "add_pages sys cfg localRoot lang [] st = ([], st)"
| "add_pages sys cfg localRoot lang (page # pages) st =
     (let pageName = KeyString cfg ''pages'' page;
          (a, st1) = new_node st pageName (path_join sys [localRoot, lang, pageName] @ ''.md'') [];
          (as, st2) = add_pages sys cfg localRoot lang pages st1
      in (a # as, st2))"

text \<open>The loop over the languages, filling the new map.\<close>

fun add_langs ::
  "sys \<Rightarrow> ini \<Rightarrow> string \<Rightarrow> string list \<Rightarrow> (string \<rightharpoonup> Toc) \<Rightarrow> state
     \<Rightarrow> (string \<rightharpoonup> Toc) \<times> state" where
  "add_langs sys cfg localRoot [] tocs st = (tocs, st)"
| "add_langs sys cfg localRoot (lang # langs) tocs st =
     (let (nodes, st1) = add_dirs sys cfg localRoot lang (KeyStrings cfg []) st;
          (pages, st2) = add_pages sys cfg localRoot lang (KeyStrings cfg ''pages'') st1;
          toc = \<lparr>RootPath = localRoot, Lang = lang, TocNodes = nodes, Pages = pages\<rparr>
      in add_langs sys cfg localRoot langs (tocs(lang \<mapsto> toc)) st2)"

definition initToc ::
  "sys \<Rightarrow> state \<Rightarrow> string \<Rightarrow> (goerror + (string \<rightharpoonup> Toc)) \<times> state" where
  "initToc sys st localRoot =
     (let tocPath = path_join sys [localRoot, ''TOC.ini''] in
      if \<not> is_file (disk st) tocPath then (Inl TocNotFound, st)
      else
        (case ini_load (disk st) tocPath of
           None \<Rightarrow> (Inl TocLoadFailed, st)
         | Some tocCfg \<Rightarrow>
             (case add_langs sys tocCfg localRoot (Langs sys) Map.empty st of
                (tocs, st') \<Rightarrow> (Inr tocs, st'))))"

text \<open>
  The first part of \<^verbatim>\<open>ReloadDocs\<close>: the local root, after \<^verbatim>\<open>git pull\<close> or
  \<^verbatim>\<open>git clone\<close> for a remote source. The commands act on the disk.
\<close>

definition fetch_docs :: "sys \<Rightarrow> state \<Rightarrow> (goerror + string) \<times> state" where
  "fetch_docs sys st =
     (if DocsType sys = ''remote'' then
        (case filepath_abs sys ''data/docs'' of
           None \<Rightarrow> (Inl AbsFailed, st)
         | Some absRoot \<Rightarrow>
             if is_dir (disk st) absRoot then
               (case git_pull sys (disk st) absRoot of
                  (ok, d) \<Rightarrow>
                    if \<not> ok then (Inl PullFailed, st\<lparr>disk := d\<rparr>)
                    else (Inr ''data/docs'', st\<lparr>disk := d\<rparr>))
             else
               (case git_clone sys (disk st) (DocsTarget sys) absRoot of
                  (ok, d) \<Rightarrow>
                    if \<not> ok then (Inl CloneFailed, st\<lparr>disk := d\<rparr>)
                    else (Inr ''data/docs'', st\<lparr>disk := d\<rparr>)))
      else (Inr (DocsTarget sys), st))"

definition ReloadDocs :: "sys \<Rightarrow> state \<Rightarrow> panic + (goerror option \<times> state)" where
  "ReloadDocs sys st =
     (case fetch_docs sys st of
        (Inl err, st1) \<Rightarrow> Inr (Some err, st1)
      | (Inr localRoot, st1) \<Rightarrow>
          if \<not> is_dir (disk st1) localRoot then Inr (Some DocsNotFound, st1)
          else
            (case initToc sys st1 localRoot of
               (Inl err, st2) \<Rightarrow> Inr (Some (InitTocFailed err), st2)
             | (Inr tocs, st2) \<Rightarrow>
                 (case initDocs sys tocs localRoot st2 of
                    Inl p \<Rightarrow> Inl p
                  | Inr st3 \<Rightarrow> Inr (None, st3\<lparr>Tocs := tocs\<rparr>))))"

subsection \<open>The front matter in the words of the specification\<close>

text \<open>
  The front-matter block of a document: the bytes between the opening marker at the start
  of the trimmed document and the first closing marker after it; \<open>None\<close> without an
  opening marker or without a closing one.
\<close>

definition front_matter :: "string \<Rightarrow> string option" where
  "front_matter raw =
     (let data = TrimSpace raw in
      if prefix ''---'' data \<and> 0 \<le> Index (drop 3 data) ''---''
      then Some (take (nat (Index (drop 3 data) ''---'')) (drop 3 data))
      else None)"

text \<open>
  The values of the \<^verbatim>\<open>name\<close> keys of a block, trimmed, in line order: a line counts
  when it has a colon and the trimmed text before the first colon is \<^verbatim>\<open>name\<close>.
\<close>

definition block_names :: "string \<Rightarrow> string list" where
  "block_names block =
     map (\<lambda>l. TrimSpace (SplitN l '':'' 2 ! 1))
       (filter (\<lambda>l. length (SplitN l '':'' 2) = 2 \<and> TrimSpace (SplitN l '':'' 2 ! 0) = ''name'')
          (Split (TrimSpace block) [CHR 0x0A]))"

definition name_values :: "string \<Rightarrow> string list" where
  "name_values raw = (case front_matter raw of None \<Rightarrow> [] | Some block \<Rightarrow> block_names block)"

subsection \<open>The scan of a two-segment lookup in the words of the specification\<close>







subsection \<open>Search in the words of the specification\<close>

text \<open>The least offset at which \<open>q\<close> occurs in \<open>t\<close>.\<close>

definition first_occ :: "string \<Rightarrow> string \<Rightarrow> nat option" where
  "first_occ q t = find (\<lambda>k. prefix q (drop k t)) [0..<Suc (length t)]"

text \<open>
  The window of a match at offset \<open>i\<close> of length \<open>l\<close> in a text of length \<open>N\<close>:
  the bytes from \<open>max(0, i - 20)\<close> up to \<open>min(N, i + l + 230)\<close>.
\<close>

definition snippet :: "string \<Rightarrow> nat \<Rightarrow> nat \<Rightarrow> string" where
  "snippet t i l =
     (let lo = nat (max 0 (int i - 20));
          hi = nat (min (int (length t)) (int i + int l + 230))
      in take (hi - lo) (drop lo t))"

text \<open>A node matches when the query occurs in its text; its snippet is the window of the
  first occurrence.\<close>

definition hit :: "string \<Rightarrow> Node \<Rightarrow> bool" where
  "hit q n = (first_occ q (Text n) \<noteq> None)"

definition node_snippet :: "string \<Rightarrow> Node \<Rightarrow> string" where
  "node_snippet q n =
     (case first_occ q (Text n) of None \<Rightarrow> [] | Some i \<Rightarrow> snippet (Text n) i (length q))"

text \<open>The directory nodes of a tree and the file nodes of a directory, in order.\<close>

definition dir_nodes :: "state \<Rightarrow> Toc \<Rightarrow> Node list" where
  "dir_nodes st toc = List.map_filter (heap st) (TocNodes toc)"

definition child_nodes :: "state \<Rightarrow> Node \<Rightarrow> Node list" where
  "child_nodes st d = List.map_filter (heap st) (Nodes d)"

text \<open>No nil pointer in the tree (\<^verbatim>\<open>initToc\<close> stores the address of a new node only).\<close>

definition allocated :: "state \<Rightarrow> Toc \<Rightarrow> bool" where
  "allocated st toc =
     (\<forall>a \<in> set (TocNodes toc).
        case heap st a of None \<Rightarrow> False | Some d \<Rightarrow> \<forall>c \<in> set (Nodes d). heap st c \<noteq> None)"

text \<open>The title, the content and the fallback flag of a lookup, without the state.\<close>

definition doc_result ::
  "(panic + ((string \<times> string option \<times> bool) \<times> state)) option
     \<Rightarrow> (panic + (string \<times> string option \<times> bool)) option" where
  "doc_result r = map_option (map_sum id fst) r"

subsection \<open>Sample configurations and states\<close>

text \<open>
  What \<^verbatim>\<open>path.Join\<close> returns for elements that are clean already (no slash, dot or
  dot-dot element): the non-empty ones, joined by slashes.
\<close>

definition stub_join :: "string list \<Rightarrow> string" where
  "stub_join xs =
     (case filter (\<lambda>x. x \<noteq> []) xs of
        [] \<Rightarrow> []
      | y # ys \<Rightarrow> foldl (\<lambda>acc x. acc @ ''/'' @ x) y ys)"

text \<open>
  A configuration with stand-ins for the renderers (the trimmed body in a paragraph tag,
  and the trimmed body as its text) and for \<^verbatim>\<open>ToLower\<close> (the identity, which is right
  for a string without upper-case letters), a local source in \<^verbatim>\<open>data/docs\<close>, and git
  commands that change nothing.
\<close>

definition stub_sys :: "bool \<Rightarrow> string list \<Rightarrow> sys" where
  "stub_sys pm langs =
     \<lparr>ProdMode = pm, Langs = langs, DocsType = ''local'', DocsTarget = ''data/docs'',
      markdown = (\<lambda>d. Some (''<p>'' @ TrimSpace d @ ''</p>'')),
      text_render = TrimSpace, ToLower = (\<lambda>s. s), path_join = stub_join,
      filepath_abs = (\<lambda>p. Some (''/srv/peach/'' @ p)), git_pull = (\<lambda>d root. (True, d)),
      git_clone = (\<lambda>d target root. (True, d)),
      initDocs = (\<lambda>tocs root st. Inr st), title_first = False\<rparr>"

text \<open>A disk that holds exactly the listed directories and regular files.\<close>

definition files_disk :: "string list \<Rightarrow> (string \<times> string) list \<Rightarrow> fs" where
  "files_disk dirs files =
     \<lparr>is_file = (\<lambda>p. map_of files p \<noteq> None), is_dir = (\<lambda>p. p \<in> set dirs),
      read_file = map_of files, ini_load = (\<lambda>p. None)\<rparr>"

text \<open>A node as \<^verbatim>\<open>initToc\<close> builds it, before any content resolution.\<close>

definition fresh_node :: "string \<Rightarrow> string \<Rightarrow> nat list \<Rightarrow> Node" where
  "fresh_node name file kids =
     \<lparr>Name = name, Title = [], content = None, Text = [], Plain = False,
      FileName = file, Nodes = kids\<rparr>"

text \<open>A node after the content resolution of a document with that title and body.\<close>

definition loaded_node :: "string \<Rightarrow> string \<Rightarrow> string \<Rightarrow> string \<Rightarrow> nat list \<Rightarrow> Node" where
  "loaded_node name title body file kids =
     \<lparr>Name = name, Title = title, content = Some (''<p>'' @ body @ ''</p>''), Text = body,
      Plain = False, FileName = file, Nodes = kids\<rparr>"

text \<open>One fresh node \<^verbatim>\<open>intro\<close> at address 0, its file holding \<open>doc\<close>.\<close>

definition one_node_state :: "string \<Rightarrow> state" where
  "one_node_state doc =
     \<lparr>heap = [0 \<mapsto> fresh_node ''intro'' ''data/docs/en/intro.md'' []], next_addr = 1,
      Tocs = Map.empty, disk = files_disk [''data/docs''] [(''data/docs/en/intro.md'', doc)],
      logged = []\<rparr>"

text \<open>
  Two languages, \<^verbatim>\<open>en\<close> first, each with the directory \<^verbatim>\<open>guide\<close> and its file
  \<^verbatim>\<open>setup\<close>, all four documents loaded; the disk is a parameter.
\<close>

definition guide_toc :: "string \<Rightarrow> nat \<Rightarrow> Toc" where
  "guide_toc lang a = \<lparr>RootPath = ''data/docs'', Lang = lang, TocNodes = [a], Pages = []\<rparr>"

definition guide_state :: "fs \<Rightarrow> state" where
  "guide_state d =
     \<lparr>heap = [0 \<mapsto> loaded_node ''guide'' ''Guide'' ''welcome''
                    ''data/docs/en/guide/intro.md'' [1],
              1 \<mapsto> loaded_node ''setup'' ''Setup'' ''install it''
                    ''data/docs/en/guide/setup.md'' [],
              2 \<mapsto> loaded_node ''guide'' ''Anleitung'' ''willkommen''
                    ''data/docs/de/guide/intro.md'' [3],
              3 \<mapsto> loaded_node ''setup'' ''Einrichtung'' ''installiere es''
                    ''data/docs/de/guide/setup.md'' []],
      next_addr = 4,
      Tocs = [''en'' \<mapsto> guide_toc ''en'' 0, ''de'' \<mapsto> guide_toc ''de'' 2],
      disk = d, logged = []\<rparr>"

text \<open>
  The documents and the index; the disk with all of them, and three disks with files
  missing: the German \<^verbatim>\<open>setup\<close>, that and the index, and the English \<^verbatim>\<open>setup\<close>.
  (The sample disks parse no index: \<open>ini_load\<close> fails on them.)
\<close>

definition en_intro :: "(string \<times> string) list" where
  "en_intro =
     [(''data/docs/en/guide/intro.md'', ''---\<newline>name: Guide\<newline>---\<newline>welcome'')]"

definition en_setup :: "(string \<times> string) list" where
  "en_setup =
     [(''data/docs/en/guide/setup.md'', ''---\<newline>name: Setup\<newline>---\<newline>install it'')]"

definition de_intro :: "(string \<times> string) list" where
  "de_intro =
     [(''data/docs/de/guide/intro.md'', ''---\<newline>name: Anleitung\<newline>---\<newline>willkommen'')]"

definition de_setup :: "(string \<times> string) list" where
  "de_setup =
     [(''data/docs/de/guide/setup.md'',
       ''---\<newline>name: Einrichtung\<newline>---\<newline>installiere es'')]"

definition toc_ini :: "(string \<times> string) list" where
  "toc_ini = [(''data/docs/TOC.ini'', ''-: guide\<newline>[guide]\<newline>-: intro\<newline>-: setup'')]"

definition docs_dirs :: "string list" where
  "docs_dirs = [''data/docs'', ''/srv/peach/data/docs'']"

definition full_disk :: fs where
  "full_disk = files_disk docs_dirs (en_intro @ en_setup @ de_intro @ de_setup @ toc_ini)"

definition untranslated_disk :: fs where
  "untranslated_disk = files_disk docs_dirs (en_intro @ en_setup @ de_intro @ toc_ini)"

definition pulled_disk :: fs where
  "pulled_disk = files_disk docs_dirs (en_intro @ en_setup @ de_intro)"

definition no_setup_disk :: fs where
  "no_setup_disk = files_disk docs_dirs (en_intro @ de_intro @ toc_ini)"

text \<open>The same configuration with a remote source whose \<^verbatim>\<open>git pull\<close> leaves
  \<open>pulled_disk\<close>: the index and the German \<^verbatim>\<open>setup\<close> are gone.\<close>

definition remote_sys :: sys where
  "remote_sys =
     (stub_sys True [''en'', ''de''])
       \<lparr>DocsType := ''remote'', DocsTarget := ''https://example.org/docs.git'',
        git_pull := (\<lambda>d root. (True, pulled_disk))\<rparr>"

text \<open>A tree for search: two directories, the first with two files.\<close>

definition search_toc :: Toc where
  "search_toc = \<lparr>RootPath = ''data/docs'', Lang = ''en'', TocNodes = [0, 3], Pages = []\<rparr>"

definition search_state :: state where
  "search_state =
     \<lparr>heap = [0 \<mapsto> loaded_node ''guide'' ''Guide'' ''welcome to the guide''
                    ''data/docs/en/guide/intro.md'' [1, 2],
              1 \<mapsto> loaded_node ''setup'' ''Setup'' ''the guide to install it, the short way''
                    ''data/docs/en/guide/setup.md'' [],
              2 \<mapsto> loaded_node ''usage'' ''Usage'' ''run it''
                    ''data/docs/en/guide/usage.md'' [],
              3 \<mapsto> loaded_node ''faq'' ''Questions'' ''the questions''
                    ''data/docs/en/faq/intro.md'' []],
      next_addr = 4, Tocs = [''en'' \<mapsto> search_toc],
      disk = files_disk docs_dirs [], logged = []\<rparr>"

section \<open>Properties\<close>

subsection \<open>\<^verbatim>\<open>Index\<close> finds the first occurrence\<close>

lemma Index_ge: "- 1 \<le> Index s sep"
  by (induction s) (auto simp: Let_def)

lemma Index_neg: "Index s sep < 0 \<longleftrightarrow> Index s sep = - 1"
  using Index_ge [of s sep] by auto

lemma Index_prefix: "0 \<le> Index s sep \<Longrightarrow> prefix sep (drop (nat (Index s sep)) s)"
proof (induction s)
  case Nil
  then show ?case by (auto split: if_splits)
next
  case (Cons c cs)
  show ?case
  proof (cases "prefix sep (c # cs)")
    case True
    then show ?thesis by simp
  next
    case False
    with Cons.prems have r: "0 \<le> Index cs sep" 
      by (auto simp: Let_def split: if_splits)
    with False have "Index (c # cs) sep = Index cs sep + 1" by (simp add: Let_def)
    moreover have "nat (Index cs sep + 1) = Suc (nat (Index cs sep))" using r by simp
    ultimately show ?thesis using Cons.IH [OF r] by simp
  qed
qed

lemma Index_first: "0 \<le> Index s sep \<Longrightarrow> k < nat (Index s sep) \<Longrightarrow> \<not> prefix sep (drop k s)"
proof (induction s arbitrary: k)
  case Nil
  then show ?case by (auto split: if_splits)
next
  case (Cons c cs)
  show ?case
  proof (cases "prefix sep (c # cs)")
    case True
    with Cons.prems show ?thesis by simp
  next
    case False
    with Cons.prems have r: "0 \<le> Index cs sep"
      by (auto simp: Let_def split: if_splits)
    with False have e: "Index (c # cs) sep = Index cs sep + 1" by (simp add: Let_def)
    show ?thesis
    proof (cases k)
      case 0
      with False show ?thesis by simp
    next
      case (Suc k')
      with Cons.prems e r have "k' < nat (Index cs sep)" by simp
      from Cons.IH [OF r this] Suc show ?thesis by simp
    qed
  qed
qed

lemma Index_none: "Index s sep < 0 \<Longrightarrow> \<not> prefix sep (drop k s)"
proof (induction s arbitrary: k)
  case Nil
  then show ?case by (auto split: if_splits)
next
  case (Cons c cs)
  then have np: "\<not> prefix sep (c # cs)" and r: "Index cs sep < 0"
    by (auto simp: Let_def split: if_splits)
  show ?case
  proof (cases k)
    case 0
    with np show ?thesis by simp
  next
    case (Suc k')
    with Cons.IH [OF r] show ?thesis by simp
  qed
qed

lemma Index_empty_sep: "Index s [] = 0"
  by (cases s) simp_all

lemma Index_bound: "0 \<le> Index s sep \<Longrightarrow> nat (Index s sep) + length sep \<le> length s"
proof (cases "sep = []")
  case True
  then show ?thesis by (simp add: Index_empty_sep)
next
  case False
  assume a: "0 \<le> Index s sep"
  from Index_prefix [OF a] have "length sep \<le> length (drop (nat (Index s sep)) s)"
    by (rule prefix_length_le)
  with False show ?thesis by (cases sep) auto
qed

subsection \<open>Front matter\<close>

lemma marker_prefix: "prefix ''---'' data \<longleftrightarrow> \<not> length data < 3 \<and> take 3 data = ''---''"
proof
  assume "prefix ''---'' data"
  then obtain zs where "data = ''---'' @ zs" by (auto simp: prefix_def)
  then show "\<not> length data < 3 \<and> take 3 data = ''---''" by simp
next
  assume a: "\<not> length data < 3 \<and> take 3 data = ''---''"
  have "prefix (take 3 data) data" by (rule take_is_prefix)
  with a show "prefix ''---'' data" by simp
qed

lemma parseNodeName_plain:
  "\<not> prefix ''---'' (TrimSpace raw) \<Longrightarrow> parseNodeName name raw = Inr (name, [])"
  by (auto simp: parseNodeName_def marker_prefix Let_def)

lemma parseNodeName_unclosed:
  assumes "prefix ''---'' (TrimSpace raw)" and "Index (drop 3 (TrimSpace raw)) ''---'' < 0"
  shows "parseNodeName name raw = Inl SliceBounds"
proof -
  from assms(2) have "Index (drop 3 (TrimSpace raw)) ''---'' = - 1" by (simp add: Index_neg)
  with assms(1) show ?thesis
    by (simp add: parseNodeName_def marker_prefix Let_def slice_def)
qed

lemma parseNodeName_closed:
  assumes "prefix ''---'' (TrimSpace raw)" and "0 \<le> Index (drop 3 (TrimSpace raw)) ''---''"
  shows "parseNodeName name raw =
           Inr (scan_opts name
                  (Split (TrimSpace (take (nat (Index (drop 3 (TrimSpace raw)) ''---''))
                                          (drop 3 (TrimSpace raw)))) [CHR 0x0A]),
                drop (nat (Index (drop 3 (TrimSpace raw)) ''---'') + 6) (TrimSpace raw))"
proof -
  define data where "data = TrimSpace raw"
  define k where "k = Index (drop 3 data) ''---''"
  from assms have p: "prefix ''---'' data" and k0: "0 \<le> k" by (simp_all add: data_def k_def)
  from Index_bound [of "drop 3 data" "''---''"] k0
  have b: "nat k + 3 \<le> length data - 3" by (simp add: k_def)
  from p have l: "\<not> length data < 3" and t: "take 3 data = ''---''" by (simp_all add: marker_prefix)
  have s1: "slice data 3 (k + 3) = Inr (take (nat k) (drop 3 data))"
    using k0 b l by (simp add: slice_def nat_add_distrib)
  have s2: "slice_from data (k + 3 + 3) = Inr (drop (nat k + 6) data)"
  proof -
    have "6 + k \<le> int (length data)" using k0 b l by linarith
    moreover have "6 + nat k = nat k + 6" by simp
    ultimately show ?thesis
      using k0 by (simp add: slice_from_def slice_def nat_add_distrib add.commute)
  qed
  have "k + 3 \<noteq> - 1" using k0 by simp
  then show ?thesis
    unfolding parseNodeName_def data_def [symmetric] Let_def k_def [symmetric]
    using l t s1 s2 by simp
qed

lemma scan_opts_last:
  "scan_opts title opts =
     (let vs = map (\<lambda>l. TrimSpace (SplitN l '':'' 2 ! 1))
                 (filter (\<lambda>l. length (SplitN l '':'' 2) = 2
                               \<and> TrimSpace (SplitN l '':'' 2 ! 0) = ''name'') opts)
      in if vs = [] then title else last vs)"
  by (induction opts arbitrary: title) (auto simp: Let_def)

lemma parseNodeName_title:
  assumes "parseNodeName name raw = Inr (title, body)"
  shows "title = (if name_values raw = [] then name else last (name_values raw))"
proof (cases "prefix ''---'' (TrimSpace raw)")
  case False
  with assms show ?thesis
    by (simp add: parseNodeName_plain name_values_def front_matter_def)
next
  case True
  show ?thesis
  proof (cases "0 \<le> Index (drop 3 (TrimSpace raw)) ''---''")
    case False
    with True assms show ?thesis by (simp add: parseNodeName_unclosed)
  next
    case k: True
    from assms show ?thesis
      unfolding parseNodeName_closed [OF True k]
      using True k
      by (auto simp: name_values_def front_matter_def block_names_def scan_opts_last Let_def)
  qed
qed

lemma parseNodeName_returns:
  assumes "prefix ''---'' (TrimSpace raw) \<longrightarrow> front_matter raw \<noteq> None"
  shows "\<exists>title body. parseNodeName name raw = Inr (title, body)"
proof (cases "prefix ''---'' (TrimSpace raw)")
  case False
  then show ?thesis by (simp add: parseNodeName_plain)
next
  case True
  with assms have "0 \<le> Index (drop 3 (TrimSpace raw)) ''---''"
    by (auto simp: front_matter_def Let_def split: if_splits)
  from parseNodeName_closed [OF True this] show ?thesis by blast
qed

text \<open>
  C1 (code defect). A document that opens a front-matter block and never closes it:
  \<^verbatim>\<open>bytes.Index\<close> returns \<open>-1\<close>, the code adds 3 before it compares with \<open>-1\<close>, so the
  guard never fires and \<^verbatim>\<open>data[3:2]\<close> panics; the title and the empty body that the
  guard would return are not produced.
\<close>

theorem parseNodeName_unclosed_front_matter_panics:
  "parseNodeName ''intro'' ''---\<newline>name: Intro'' = Inl SliceBounds"
  by code_simp

text \<open>
  C4, as stated, fails: a \<^verbatim>\<open>name\<close> key with an empty value gives the empty title.
\<close>

theorem empty_name_value_gives_empty_title:
  "map_sum id (\<lambda>(err, st). (err, map_option Title (heap st 0)))
     (ReloadContent (stub_sys False [''en''])
        (one_node_state ''---\<newline>name:\<newline>---\<newline>Body'') 0)
   = Inr (None, Some [])"
  by code_simp

text \<open>
  C4, amended. For a readable document that does not open a front-matter block without
  closing it, content resolution returns without error, and the title is the trimmed
  value of the last \<^verbatim>\<open>name\<close> key of the front-matter block when there is one, and the
  node's declared name otherwise; the title is non-empty when the declared name and
  every \<^verbatim>\<open>name\<close> value are.
\<close>

theorem ReloadContent_title:
  assumes "heap st a = Some n"
    and "read_file (disk st) (FileName n) = Some raw"
    and "prefix ''---'' (TrimSpace raw) \<longrightarrow> front_matter raw \<noteq> None"
  shows "\<exists>st' n'. ReloadContent sys st a = Inr (None, st') \<and> heap st' a = Some n'
           \<and> Title n' = (if name_values raw = [] then Name n else last (name_values raw))
           \<and> (Name n \<noteq> [] \<and> [] \<notin> set (name_values raw) \<longrightarrow> Title n' \<noteq> [])"
proof -
  from parseNodeName_returns [OF assms(3)]
  obtain title body where p: "parseNodeName (Name n) raw = Inr (title, body)" by blast
  from parseNodeName_title [OF p]
  have t: "title = (if name_values raw = [] then Name n else last (name_values raw))" .
  have ne: "Name n \<noteq> [] \<and> [] \<notin> set (name_values raw) \<longrightarrow> title \<noteq> []"
  proof (cases "name_values raw = []")
    case True
    with t show ?thesis by simp
  next
    case False
    with t show ?thesis by (metis last_in_set)
  qed
  from assms(1,2) p t ne show ?thesis
    by (auto simp: ReloadContent_def Let_def)
qed

theorem ReloadContent_title_witness:
  "\<exists>st' n'. ReloadContent (stub_sys False [''en''])
               (one_node_state ''---\<newline>name: Intro \<newline>---\<newline>Body'') 0 = Inr (None, st')
     \<and> heap st' 0 = Some n' \<and> Title n' = ''Intro''"
proof -
  have h: "heap (one_node_state ''---\<newline>name: Intro \<newline>---\<newline>Body'') 0
             = Some (fresh_node ''intro'' ''data/docs/en/intro.md'' [])"
    by (simp add: one_node_state_def)
  have r: "read_file (disk (one_node_state ''---\<newline>name: Intro \<newline>---\<newline>Body''))
             (FileName (fresh_node ''intro'' ''data/docs/en/intro.md'' []))
             = Some ''---\<newline>name: Intro \<newline>---\<newline>Body''"
    by (simp add: one_node_state_def files_disk_def fresh_node_def)
  have f: "prefix ''---'' (TrimSpace ''---\<newline>name: Intro \<newline>---\<newline>Body'')
             \<longrightarrow> front_matter ''---\<newline>name: Intro \<newline>---\<newline>Body'' \<noteq> None"
    by code_simp
  have v: "name_values ''---\<newline>name: Intro \<newline>---\<newline>Body'' = [''Intro'']"
    by code_simp
  from ReloadContent_title [OF h r f, of "stub_sys False [''en'']"] v
  show ?thesis by auto
qed

subsection \<open>Content resolution in development mode\<close>

text \<open>
  C5 (code defect). \<^verbatim>\<open>ReloadContent\<close> assigns \<^verbatim>\<open>content\<close> and \<^verbatim>\<open>Text\<close> only when the
  body is not empty and never clears them. In development mode, a document is read with
  the body \<^verbatim>\<open>Body\<close>; the body is then deleted from the file and \<^verbatim>\<open>Content()\<close> is called
  again: the node is plain, and still carries and returns the old rendering and text.
\<close>

theorem stale_content_on_plain_reread:
  "map_sum id (\<lambda>(cs, st). (cs, map_option (\<lambda>n. (Plain n, content n, Text n)) (heap st 0)))
     (Content_seq (stub_sys False [''en'']) (one_node_state []) 0
        [files_disk [''data/docs''] [(''data/docs/en/intro.md'', ''---\<newline>---\<newline>Body'')],
         files_disk [''data/docs''] [(''data/docs/en/intro.md'', ''---\<newline>---\<newline>'')]])
   = Inr ([Some ''<p>Body</p>'', Some ''<p>Body</p>''],
          Some (True, Some ''<p>Body</p>'', ''Body''))"
  by code_simp

subsection \<open>Paths and the scans of \<^verbatim>\<open>GetDoc\<close>\<close>

lemma Index_slash_none: "CHR ''/'' \<notin> set s \<Longrightarrow> Index s ''/'' = - 1"
  by (induction s) auto

lemma Index_slash_at: "CHR ''/'' \<notin> set a \<Longrightarrow> Index (a @ CHR ''/'' # b) ''/'' = int (length a)"
  by (induction a) auto

lemma genSplit_slash_none: "CHR ''/'' \<notin> set a \<Longrightarrow> genSplit a ''/'' n = [a]"
  by (cases n) (simp_all add: Index_slash_none)

lemma genSplit_slash_cut:
  "CHR ''/'' \<notin> set a \<Longrightarrow> genSplit (a @ CHR ''/'' # b) ''/'' (Suc n) = a # genSplit b ''/'' n"
  by (simp add: Index_slash_at)

lemma genSplit_nonempty: "genSplit s sep n \<noteq> []"
  by (cases n) (simp_all add: Let_def)

lemma Split_nonempty: "Split s sep \<noteq> []"
  by (simp add: Split_def genSplit_nonempty)

lemma Split_two:
  assumes "CHR ''/'' \<notin> set dir" and "CHR ''/'' \<notin> set file"
  shows "Split (dir @ ''/'' @ file) ''/'' = [dir, file]"
  using assms by (simp add: Split_def genSplit_slash_cut genSplit_slash_none del: genSplit.simps)

lemma Split_more:
  assumes "CHR ''/'' \<notin> set dir" and "CHR ''/'' \<notin> set file"
  shows "\<exists>others. Split (dir @ ''/'' @ file @ ''/'' @ rest) ''/'' = dir # file # others \<and> others \<noteq> []"
proof -
  have "Split (dir @ ''/'' @ file @ ''/'' @ rest) ''/''
               = dir # file # genSplit rest ''/'' (length dir + (length file + length rest))"
    using assms by (simp add: Split_def genSplit_slash_cut del: genSplit.simps)
  moreover have "genSplit rest ''/'' (length dir + (length file + length rest)) \<noteq> []"
    by (rule genSplit_nonempty)
  ultimately show ?thesis by blast
qed

lemma TrimPrefix_no_slash:
  "dir \<noteq> [] \<Longrightarrow> CHR ''/'' \<notin> set dir \<Longrightarrow> TrimPrefix (dir @ x) ''/'' = dir @ x"
  by (cases dir) (auto simp: TrimPrefix_def)

lemma TrimPrefix_slash: "TrimPrefix (''/'' @ x) ''/'' = x"
  by (simp add: TrimPrefix_def)









lemma GetDoc_TrimPrefix:
  assumes e: "TrimPrefix a ''/'' = TrimPrefix b ''/''"
  shows "GetDoc sys st t a = GetDoc sys st t b"
  by (simp only: GetDoc.simps [of sys st t a] GetDoc.simps [of sys st t b] e)


lemma Content_allocated:
  "Content sys st a = Inr (body, st') \<Longrightarrow> \<exists>n'. heap st' a = Some n' \<and> body = content n'"
  by (auto simp: Content_def split: if_splits sum.splits option.splits prod.splits)

lemma Content_ProdMode:
  "ProdMode sys \<Longrightarrow> heap st a = Some n \<Longrightarrow> Content sys st a = Inr (content n, st)"
  by (simp add: Content_def)






subsection \<open>Evaluating the samples\<close>

lemmas sample_defs =
  guide_state_def guide_toc_def loaded_node_def fresh_node_def files_disk_def
  en_intro_def en_setup_def de_intro_def de_setup_def toc_ini_def docs_dirs_def
  full_disk_def untranslated_disk_def pulled_disk_def no_setup_disk_def
  stub_sys_def remote_sys_def return_doc_def Content_def doc_result_def Let_def

lemma sample_path: "TrimPrefix ''guide/setup'' ''/'' = ''guide/setup''"
  and sample_split: "Split ''guide/setup'' ''/'' = [''guide'', ''setup'']"
  by code_simp+

lemma sample_en_setup:
  "ProdMode sys \<Longrightarrow> is_file d ''data/docs/en/guide/setup.md'' \<Longrightarrow>
   GetDoc sys (guide_state d) (Some (guide_toc ''en'' 0)) ''guide/setup''
   = Some (Inr ((''Setup'', Some ''<p>install it</p>'', False), guide_state d))"
  by (subst GetDoc.simps) (simp add: sample_path sample_split sample_defs)


subsection \<open>The empty path\<close>

text \<open>
  C6. \<^verbatim>\<open>GetDoc\<close> with the empty path reports not-found (empty title, nil content, flag
  false) when the tree has no directory node or the first one is plain; otherwise it
  returns the first directory node's title and what \<^verbatim>\<open>Content()\<close> returns for it, with
  the flag false. In production mode that is the stored title and content, and the state
  is unchanged; in development mode the content is the one just re-read, and the title is
  the node's title before or after the re-read, as the compiler orders the two operands.
\<close>

theorem GetDoc_empty_path:
  "(TocNodes toc = [] \<longrightarrow> GetDoc sys st (Some toc) [] = Some (Inr (([], None, False), st)))
   \<and> (\<forall>a as n. TocNodes toc = a # as \<and> heap st a = Some n \<and> Plain n
          \<longrightarrow> GetDoc sys st (Some toc) [] = Some (Inr (([], None, False), st)))
   \<and> (\<forall>a as n body st'.
          TocNodes toc = a # as \<and> heap st a = Some n \<and> \<not> Plain n
            \<and> Content sys st a = Inr (body, st')
          \<longrightarrow> (\<exists>n'. heap st' a = Some n'
                 \<and> GetDoc sys st (Some toc) []
                     = Some (Inr ((if title_first sys then Title n else Title n', body, False),
                                  st'))))
   \<and> (\<forall>a as n. TocNodes toc = a # as \<and> heap st a = Some n \<and> \<not> Plain n \<and> ProdMode sys
          \<longrightarrow> GetDoc sys st (Some toc) [] = Some (Inr ((Title n, content n, False), st)))"
proof (intro conjI allI impI)
  assume "TocNodes toc = []"
  then show "GetDoc sys st (Some toc) [] = Some (Inr (([], None, False), st))"
    by (subst GetDoc.simps) (simp add: TrimPrefix_def)
next
  fix a as n
  assume "TocNodes toc = a # as \<and> heap st a = Some n \<and> Plain n"
  then show "GetDoc sys st (Some toc) [] = Some (Inr (([], None, False), st))"
    by (subst GetDoc.simps) (simp add: TrimPrefix_def)
next
  fix a as n body st'
  assume h: "TocNodes toc = a # as \<and> heap st a = Some n \<and> \<not> Plain n
               \<and> Content sys st a = Inr (body, st')"
  then obtain n' where n': "heap st' a = Some n'" using Content_allocated by blast
  from h n' have "GetDoc sys st (Some toc) []
          = Some (Inr ((if title_first sys then Title n else Title n', body, False), st'))"
    by (subst GetDoc.simps) (simp add: TrimPrefix_def return_doc_def)
  with n' show "\<exists>n'. heap st' a = Some n'
                 \<and> GetDoc sys st (Some toc) []
                     = Some (Inr ((if title_first sys then Title n else Title n', body, False),
                                  st'))"
    by blast
next
  fix a as n
  assume h: "TocNodes toc = a # as \<and> heap st a = Some n \<and> \<not> Plain n \<and> ProdMode sys"
  then have "Content sys st a = Inr (content n, st)" by (simp add: Content_ProdMode)
  with h show "GetDoc sys st (Some toc) [] = Some (Inr ((Title n, content n, False), st))"
    by (subst GetDoc.simps) (simp add: TrimPrefix_def return_doc_def)
qed

text \<open>The first directory node of the sample tree is returned for the empty path.\<close>

theorem GetDoc_empty_path_witness:
  "doc_result (GetDoc (stub_sys True [''en'', ''de'']) (guide_state full_disk)
                 (Some (guide_toc ''en'' 0)) [])
     = Some (Inr (''Guide'', Some ''<p>welcome</p>'', False))"
proof -
  let ?n = "loaded_node ''guide'' ''Guide'' ''welcome'' ''data/docs/en/guide/intro.md'' [1]"
  have "TocNodes (guide_toc ''en'' 0) = 0 # [] \<and> heap (guide_state full_disk) 0 = Some ?n
          \<and> \<not> Plain ?n \<and> ProdMode (stub_sys True [''en'', ''de''])"
    by (simp add: guide_toc_def guide_state_def loaded_node_def stub_sys_def)
  with GetDoc_empty_path [of "guide_toc ''en'' 0" "stub_sys True [''en'', ''de'']"
         "guide_state full_disk"]
  have "GetDoc (stub_sys True [''en'', ''de'']) (guide_state full_disk)
          (Some (guide_toc ''en'' 0)) []
        = Some (Inr ((Title ?n, content ?n, False), guide_state full_disk))"
    by blast
  then show ?thesis by (simp add: doc_result_def loaded_node_def)
qed

subsection \<open>The fallback to the default language\<close>



text \<open>
  When the tree is the one of the first language itself and the file it finds is missing,
  the call repeats itself with the same arguments in the same state: it never returns.
\<close>

lemma GetDoc_default_missing_never_returns:
  assumes "Langs sys \<noteq> []" and "Tocs st (Langs sys ! 0) = Some toc"
    and "TrimPrefix name ''/'' = name" and "name \<noteq> []"
    and "Split name ''/'' = seg0 # seg1 # others"
    and "find_file (heap st) (TocNodes toc) seg0 seg1 = Inr (Some a)"
    and "heap st a = Some n" and "\<not> is_file (disk st) (FileName n)"
  shows "GetDoc sys st (Some toc) name = None"
proof -
  have nr: "GetDoc sys' st' t nm = Some r
          \<Longrightarrow> \<not> (sys' = sys \<and> st' = st \<and> t = Some toc \<and> nm = name)" for sys' st' t nm r
    apply (erule GetDoc.raw_induct [rotated, where P = "\<lambda>sys' st' t nm r.
             \<not> (sys' = sys \<and> st' = st \<and> t = Some toc \<and> nm = name)"])
    using assms
    apply (clarsimp simp: Let_def bind_eq_Some_conv)
    apply blast
    done
  show ?thesis
  proof (cases "GetDoc sys st (Some toc) name")
    case None
    then show ?thesis .
  next
    case (Some r)
    from nr [OF Some] show ?thesis by simp
  qed
qed

text \<open>
  C3 (code defect). The comment in the code says "If not default language, try again",
  but the code does not test the language: in the tree of the first language, a file node
  whose backing file is missing makes \<^verbatim>\<open>GetDoc\<close> call itself without end. Here the
  English \<^verbatim>\<open>setup.md\<close> is missing and English is the first language.
\<close>

theorem GetDoc_default_language_never_returns:
  "GetDoc (stub_sys True [''en'', ''de'']) (guide_state no_setup_disk)
     (Tocs (guide_state no_setup_disk) ''en'') ''guide/setup'' = None"
proof -
  let ?st = "guide_state no_setup_disk"
  let ?sys = "stub_sys True [''en'', ''de'']"
  have t: "Tocs ?st ''en'' = Some (guide_toc ''en'' 0)" by (simp add: guide_state_def)
  have "GetDoc ?sys ?st (Some (guide_toc ''en'' 0)) ''guide/setup'' = None"
  proof (rule GetDoc_default_missing_never_returns
           [where ?seg0.0 = "''guide''" and ?seg1.0 = "''setup''" and others = "[]" and a = 1])
    show "Langs ?sys \<noteq> []" by (simp add: stub_sys_def)
    show "Tocs ?st (Langs ?sys ! 0) = Some (guide_toc ''en'' 0)"
      by (simp add: guide_state_def stub_sys_def)
    show "TrimPrefix ''guide/setup'' ''/'' = ''guide/setup''" by (rule sample_path)
    show "''guide/setup'' \<noteq> []" by simp
    show "Split ''guide/setup'' ''/'' = [''guide'', ''setup'']" by (rule sample_split)
    show "find_file (heap ?st) (TocNodes (guide_toc ''en'' 0)) ''guide'' ''setup'' = Inr (Some 1)"
      by (simp add: guide_state_def guide_toc_def loaded_node_def)
    show "heap ?st 1 = Some (loaded_node ''setup'' ''Setup'' ''install it''
                               ''data/docs/en/guide/setup.md'' [])"
      by (simp add: guide_state_def)
    show "\<not> is_file (disk ?st)
               (FileName (loaded_node ''setup'' ''Setup'' ''install it''
                            ''data/docs/en/guide/setup.md'' []))"
      by (simp add: sample_defs)
  qed
  with t show ?thesis by simp
qed

subsection \<open>More than two segments\<close>

lemma GetDoc_drop_extra:
  assumes d: "dir \<noteq> []" "CHR ''/'' \<notin> set dir" "CHR ''/'' \<notin> set file"
    and run: "GetDoc sys st t (dir @ ''/'' @ file @ ''/'' @ rest) = Some r"
  shows "GetDoc sys st t (dir @ ''/'' @ file) = Some r"
proof -
  define long where "long = dir @ ''/'' @ file @ ''/'' @ rest"
  define short where "short = dir @ ''/'' @ file"
  have tl: "TrimPrefix long ''/'' = long" and ts: "TrimPrefix short ''/'' = short"
    unfolding long_def short_def by (rule TrimPrefix_no_slash [OF d(1,2)])+
  from Split_more [OF d(2,3), of rest] obtain others
    where sl: "Split long ''/'' = dir # file # others" and "others \<noteq> []"
    unfolding long_def by blast
  have ss: "Split short ''/'' = [dir, file]"
    unfolding short_def by (rule Split_two [OF d(2,3)])
  have nl: "long \<noteq> []" and ns: "short \<noteq> []" using d by (simp_all add: long_def short_def)
  have "GetDoc sys st t nm = Some r \<Longrightarrow> nm = long \<longrightarrow> GetDoc sys st t short = Some r"
    for sys st t nm r
    apply (erule GetDoc.raw_induct [rotated, where P = "\<lambda>sys st t nm r. nm = long \<longrightarrow> GetDoc sys st t short = Some r"])
    apply (rule impI)
    apply (subst GetDoc.simps)
    apply (simp add: tl sl nl ts ss ns Let_def split: option.splits sum.splits if_splits)
    apply (auto simp: bind_eq_Some_conv)
    done
  with run show ?thesis by (simp add: long_def short_def)
qed

lemma GetDoc_add_extra:
  assumes d: "dir \<noteq> []" "CHR ''/'' \<notin> set dir" "CHR ''/'' \<notin> set file"
    and run: "GetDoc sys st t (dir @ ''/'' @ file) = Some r"
  shows "GetDoc sys st t (dir @ ''/'' @ file @ ''/'' @ rest) = Some r"
proof -
  define long where "long = dir @ ''/'' @ file @ ''/'' @ rest"
  define short where "short = dir @ ''/'' @ file"
  have tl: "TrimPrefix long ''/'' = long" and ts: "TrimPrefix short ''/'' = short"
    unfolding long_def short_def by (rule TrimPrefix_no_slash [OF d(1,2)])+
  from Split_more [OF d(2,3), of rest] obtain others
    where sl: "Split long ''/'' = dir # file # others" and "others \<noteq> []"
    unfolding long_def by blast
  have ss: "Split short ''/'' = [dir, file]"
    unfolding short_def by (rule Split_two [OF d(2,3)])
  have nl: "long \<noteq> []" and ns: "short \<noteq> []" using d by (simp_all add: long_def short_def)
  have "GetDoc sys st t nm = Some r \<Longrightarrow> nm = short \<longrightarrow> GetDoc sys st t long = Some r"
    for sys st t nm r
    apply (erule GetDoc.raw_induct [rotated, where P = "\<lambda>sys st t nm r. nm = short \<longrightarrow> GetDoc sys st t long = Some r"])
    apply (rule impI)
    apply (subst GetDoc.simps)
    apply (simp add: tl sl nl ts ss ns Let_def split: option.splits sum.splits if_splits)
    apply (auto simp: bind_eq_Some_conv)
    done
  with run show ?thesis by (simp add: long_def short_def)
qed

text \<open>
  C10, as stated, fails for a path whose first segment is empty: after the single leading
  slash is stripped, \<^verbatim>\<open>//guide/setup\<close> is looked up as the file \<^verbatim>\<open>guide\<close> of a directory
  with the empty name and is not found, while both truncations to two segments
  (\<^verbatim>\<open>/guide\<close> of the stripped path, \<^verbatim>\<open>/\<close> of the path as given) find the directory node.
\<close>

theorem GetDoc_leading_empty_segment:
  "doc_result (GetDoc (stub_sys True [''en'', ''de'']) (guide_state full_disk)
                 (Some (guide_toc ''en'' 0)) ''//guide/setup'')
     = Some (Inr ([], None, False))
   \<and> doc_result (GetDoc (stub_sys True [''en'', ''de'']) (guide_state full_disk)
                 (Some (guide_toc ''en'' 0)) ''/guide'')
     = Some (Inr (''Guide'', Some ''<p>welcome</p>'', False))
   \<and> doc_result (GetDoc (stub_sys True [''en'', ''de'']) (guide_state full_disk)
                 (Some (guide_toc ''en'' 0)) ''/'')
     = Some (Inr (''Guide'', Some ''<p>welcome</p>'', False))"
proof -
  have t1: "TrimPrefix ''//guide/setup'' ''/'' = ''/guide/setup''" by code_simp
  have s1: "Split ''/guide/setup'' ''/'' = [[], ''guide'', ''setup'']" by code_simp
  have t2: "TrimPrefix ''/guide'' ''/'' = ''guide''" by code_simp
  have s2: "Split ''guide'' ''/'' = [''guide'']" by code_simp
  have t3: "TrimPrefix ''/'' ''/'' = []" by code_simp
  have a: "doc_result (GetDoc (stub_sys True [''en'', ''de'']) (guide_state full_disk)
                 (Some (guide_toc ''en'' 0)) ''//guide/setup'')
     = Some (Inr ([], None, False))"
    by (subst GetDoc.simps) (simp add: t1 s1 sample_defs)
  have b: "doc_result (GetDoc (stub_sys True [''en'', ''de'']) (guide_state full_disk)
                 (Some (guide_toc ''en'' 0)) ''/guide'')
     = Some (Inr (''Guide'', Some ''<p>welcome</p>'', False))"
    by (subst GetDoc.simps) (simp add: t2 s2 sample_defs)
  have c: "doc_result (GetDoc (stub_sys True [''en'', ''de'']) (guide_state full_disk)
                 (Some (guide_toc ''en'' 0)) ''/'')
     = Some (Inr (''Guide'', Some ''<p>welcome</p>'', False))"
    by (subst GetDoc.simps) (simp add: t3 sample_defs)
  from a b c show ?thesis by simp
qed

text \<open>
  C10, amended. For a path, with or without one leading slash, of more than two segments
  whose first segment is non-empty, \<^verbatim>\<open>GetDoc\<close> returns what it returns for the first two
  segments alone: the further segments are ignored.
\<close>

theorem GetDoc_extra_segments_ignored:
  assumes "dir \<noteq> []" and "CHR ''/'' \<notin> set dir" and "CHR ''/'' \<notin> set file"
    and "lead = [] \<or> lead = ''/''"
  shows "GetDoc sys st t (lead @ dir @ ''/'' @ file @ ''/'' @ rest)
           = GetDoc sys st t (lead @ dir @ ''/'' @ file)"
proof -
  have e: "GetDoc sys st t (dir @ ''/'' @ file @ ''/'' @ rest) = GetDoc sys st t (dir @ ''/'' @ file)"
  proof (cases "GetDoc sys st t (dir @ ''/'' @ file)")
    case (Some r)
    with GetDoc_add_extra [OF assms(1-3) Some] show ?thesis by simp
  next
    case None
    show ?thesis
    proof (cases "GetDoc sys st t (dir @ ''/'' @ file @ ''/'' @ rest)")
      case (Some r)
      from GetDoc_drop_extra [OF assms(1-3) Some] None show ?thesis by simp
    next
      case n: None
      with None show ?thesis by simp
    qed
  qed
  from assms(4) show ?thesis
  proof
    assume "lead = []"
    with e show ?thesis by simp
  next
    assume l: "lead = ''/''"
    have "GetDoc sys st t (''/'' @ dir @ ''/'' @ file @ ''/'' @ rest)
            = GetDoc sys st t (dir @ ''/'' @ file @ ''/'' @ rest)"
      by (rule GetDoc_TrimPrefix)
         (simp only: TrimPrefix_slash TrimPrefix_no_slash [OF assms(1,2)])
    moreover have "GetDoc sys st t (''/'' @ dir @ ''/'' @ file) = GetDoc sys st t (dir @ ''/'' @ file)"
      by (rule GetDoc_TrimPrefix)
         (simp only: TrimPrefix_slash TrimPrefix_no_slash [OF assms(1,2)])
    ultimately show ?thesis using e l by simp
  qed
qed

text \<open>\<^verbatim>\<open>guide/setup/extra\<close> is served as \<^verbatim>\<open>guide/setup\<close>.\<close>

theorem GetDoc_extra_segments_ignored_witness:
  "doc_result (GetDoc (stub_sys True [''en'', ''de'']) (guide_state full_disk)
                 (Some (guide_toc ''en'' 0)) ''guide/setup/extra'')
     = Some (Inr (''Setup'', Some ''<p>install it</p>'', False))"
proof -
  have "is_file full_disk ''data/docs/en/guide/setup.md''" by (simp add: sample_defs)
  from sample_en_setup [of "stub_sys True [''en'', ''de'']", OF _ this]
    GetDoc_extra_segments_ignored [of "''guide''" "''setup''" "[]"
      "stub_sys True [''en'', ''de'']" "guide_state full_disk" "Some (guide_toc ''en'' 0)"
      "''extra''"]
  show ?thesis by (simp add: doc_result_def stub_sys_def)
qed

subsection \<open>Search\<close>

text \<open>\<^verbatim>\<open>Index\<close> returns the least offset at which the query occurs.\<close>

lemma first_occ_Index:
  "first_occ q t = (if Index t q < 0 then None else Some (nat (Index t q)))"
proof (cases "Index t q < 0")
  case True
  then have "\<And>k. \<not> prefix q (drop k t)" by (rule Index_none)
  with True show ?thesis by (simp add: first_occ_def find_None_iff)
next
  case False
  then have p: "0 \<le> Index t q" by simp
  define i where "i = nat (Index t q)"
  have b: "i < Suc (length t)" using Index_bound [OF p] by (simp add: i_def)
  have "find (\<lambda>k. prefix q (drop k t)) [0..<Suc (length t)] = Some i"
    unfolding find_Some_iff
  proof (intro exI [of _ i] conjI allI impI)
    show "i < length [0..<Suc (length t)]" using b by simp
    show "prefix q (drop ([0..<Suc (length t)] ! i) t)"
      using Index_prefix [OF p] b by (simp add: i_def nth_upt del: upt_Suc)
    show "i = [0..<Suc (length t)] ! i" using b by (simp add: nth_upt del: upt_Suc)
    fix j assume j: "j < i"
    then have "[0..<Suc (length t)] ! j = j" using b by (simp add: nth_upt del: upt_Suc)
    moreover have "\<not> prefix q (drop j t)" using Index_first [OF p] j by (simp add: i_def)
    ultimately show "\<not> prefix q (drop ([0..<Suc (length t)] ! j) t)" by simp
  qed
  with False show ?thesis by (simp add: first_occ_def i_def)
qed

lemma match_node_hit:
  "match_node q n path =
     Inr (if hit q n then Some \<lparr>RTitle = Title n, Path = path, Match = node_snippet q n\<rparr>
          else None)"
proof (cases "Index (Text n) q < 0")
  case True
  then show ?thesis by (simp add: match_node_def hit_def first_occ_Index)
next
  case False
  then have p: "0 \<le> Index (Text n) q" by simp
  define i where "i = Index (Text n) q"
  have b: "i + int (length q) \<le> int (length (Text n))"
    using Index_bound [OF p] p by (simp add: i_def)
  have i0: "0 \<le> i" using p by (simp add: i_def)
  have "slice (Text n) (if i - 20 < 0 then 0 else i - 20)
          (if i + int (length q) + 230 > int (length (Text n)) then int (length (Text n))
           else i + int (length q) + 230)
        = Inr (snippet (Text n) (nat i) (length q))"
    using b i0 by (auto simp: slice_def snippet_def Let_def max_def min_def)
  with False i0 show ?thesis
    by (simp add: match_node_def hit_def node_snippet_def first_occ_Index adjustRange_def
        Let_def i_def [symmetric])
qed

lemma search_dirs_hits:
  assumes "\<forall>a \<in> set as. h a \<noteq> None"
  shows "search_dirs h q as acc =
           Inr (acc @ map (\<lambda>n. \<lparr>RTitle = Title n, Path = Name n, Match = node_snippet q n\<rparr>)
                        (filter (hit q) (List.map_filter h as)))"
  using assms
proof (induction as arbitrary: acc)
  case Nil
  then show ?case by (simp add: List.map_filter_simps)
next
  case (Cons a as)
  then obtain n where n: "h a = Some n" by auto
  from Cons.prems have "\<forall>a \<in> set as. h a \<noteq> None" by simp
  note IH = Cons.IH [OF this]
  show ?case
    by (cases "hit q n") (simp_all add: n match_node_hit IH List.map_filter_simps)
qed

lemma search_children_hits:
  assumes "\<forall>a \<in> set as. h a \<noteq> None"
  shows "search_children sys h q dir as acc =
           Inr (acc @ map (\<lambda>n. \<lparr>RTitle = Title n, Path = path_join sys [dir, Name n],
                                  Match = node_snippet q n\<rparr>)
                        (filter (hit q) (List.map_filter h as)))"
  using assms
proof (induction as arbitrary: acc)
  case Nil
  then show ?case by (simp add: List.map_filter_simps)
next
  case (Cons a as)
  then obtain n where n: "h a = Some n" by auto
  from Cons.prems have "\<forall>a \<in> set as. h a \<noteq> None" by simp
  note IH = Cons.IH [OF this]
  show ?case
    by (cases "hit q n") (simp_all add: n match_node_hit IH List.map_filter_simps)
qed

lemma search_files_hits:
  assumes "\<forall>a \<in> set as. case h a of None \<Rightarrow> False | Some d \<Rightarrow> \<forall>c \<in> set (Nodes d). h c \<noteq> None"
  shows "search_files sys h q as acc =
           Inr (acc @ concat (map (\<lambda>d. map (\<lambda>n. \<lparr>RTitle = Title n,
                                                    Path = path_join sys [Name d, Name n],
                                                    Match = node_snippet q n\<rparr>)
                                          (filter (hit q) (List.map_filter h (Nodes d))))
                              (List.map_filter h as)))"
  using assms
proof (induction as arbitrary: acc)
  case Nil
  then show ?case by (simp add: List.map_filter_simps)
next
  case (Cons a as)
  then obtain d where d: "h a = Some d" and k: "\<forall>c \<in> set (Nodes d). h c \<noteq> None"
    by (auto split: option.splits)
  from Cons.prems
  have "\<forall>a \<in> set as. case h a of None \<Rightarrow> False | Some d \<Rightarrow> \<forall>c \<in> set (Nodes d). h c \<noteq> None"
    by simp
  note IH = Cons.IH [OF this]
  show ?case
    by (simp add: d search_children_hits [OF k] IH List.map_filter_simps)
qed

lemma allocated_dirs: "allocated st toc \<Longrightarrow> \<forall>a \<in> set (TocNodes toc). heap st a \<noteq> None"
  by (auto simp: allocated_def split: option.splits)

lemma Search_hits:
  assumes "allocated st toc" and "q0 \<noteq> []"
  shows "Search sys st (Some toc) q0 =
           Inr (map (\<lambda>n. \<lparr>RTitle = Title n, Path = Name n,
                           Match = node_snippet (ToLower sys q0) n\<rparr>)
                  (filter (hit (ToLower sys q0)) (dir_nodes st toc))
                @ concat (map (\<lambda>d. map (\<lambda>n. \<lparr>RTitle = Title n,
                                               Path = path_join sys [Name d, Name n],
                                               Match = node_snippet (ToLower sys q0) n\<rparr>)
                                     (filter (hit (ToLower sys q0)) (child_nodes st d)))
                         (dir_nodes st toc)))"
proof -
  from assms(1)
  have f: "\<forall>a \<in> set (TocNodes toc).
             case heap st a of None \<Rightarrow> False | Some d \<Rightarrow> \<forall>c \<in> set (Nodes d). heap st c \<noteq> None"
    by (simp add: allocated_def)
  show ?thesis
    using assms(2)
    by (simp add: Search_def Let_def search_dirs_hits [OF allocated_dirs [OF assms(1)]]
        search_files_hits [OF f] dir_nodes_def child_nodes_def)
qed

lemma sample_allocated: "allocated search_state search_toc"
  by (simp add: allocated_def search_state_def search_toc_def loaded_node_def)

text \<open>
  C7. For a non-empty query, the results of \<^verbatim>\<open>Search\<close> are the matches of the directory
  nodes, in node order and with the directory name as path, followed by the matches of
  the file nodes, directory by directory and in node order, with the joined path; where
  in a text the query occurs plays no part.
\<close>

theorem Search_directories_first:
  assumes "allocated st toc" and "q0 \<noteq> []"
  shows "\<exists>ds fs. Search sys st (Some toc) q0 = Inr (ds @ fs)
           \<and> map (\<lambda>r. (RTitle r, Path r)) ds
               = map (\<lambda>d. (Title d, Name d)) (filter (hit (ToLower sys q0)) (dir_nodes st toc))
           \<and> map (\<lambda>r. (RTitle r, Path r)) fs
               = concat (map (\<lambda>d. map (\<lambda>c. (Title c, path_join sys [Name d, Name c]))
                                     (filter (hit (ToLower sys q0)) (child_nodes st d)))
                           (dir_nodes st toc))"
proof (intro exI conjI)
  show "Search sys st (Some toc) q0 =
           Inr (map (\<lambda>n. \<lparr>RTitle = Title n, Path = Name n,
                           Match = node_snippet (ToLower sys q0) n\<rparr>)
                  (filter (hit (ToLower sys q0)) (dir_nodes st toc))
                @ concat (map (\<lambda>d. map (\<lambda>n. \<lparr>RTitle = Title n,
                                               Path = path_join sys [Name d, Name n],
                                               Match = node_snippet (ToLower sys q0) n\<rparr>)
                                     (filter (hit (ToLower sys q0)) (child_nodes st d)))
                         (dir_nodes st toc)))"
    by (rule Search_hits [OF assms])
qed (simp_all add: map_concat comp_def)

text \<open>Both directories match \<^verbatim>\<open>the\<close>; the file comes after them.\<close>

theorem Search_directories_first_witness:
  "\<exists>ds fs. Search (stub_sys True [''en'']) search_state (Some search_toc) ''the'' = Inr (ds @ fs)
     \<and> map (\<lambda>r. (RTitle r, Path r)) ds = [(''Guide'', ''guide''), (''Questions'', ''faq'')]
     \<and> map (\<lambda>r. (RTitle r, Path r)) fs = [(''Setup'', ''guide/setup'')]"
proof -
  have q: "''the'' \<noteq> []" by simp
  have d: "map (\<lambda>d. (Title d, Name d))
             (filter (hit (ToLower (stub_sys True [''en'']) ''the''))
                (dir_nodes search_state search_toc))
           = [(''Guide'', ''guide''), (''Questions'', ''faq'')]"
    by code_simp
  have f: "concat (map (\<lambda>d. map (\<lambda>c. (Title c, path_join (stub_sys True [''en'']) [Name d, Name c]))
                           (filter (hit (ToLower (stub_sys True [''en'']) ''the''))
                              (child_nodes search_state d)))
                    (dir_nodes search_state search_toc))
           = [(''Setup'', ''guide/setup'')]"
    by code_simp
  from Search_directories_first [OF sample_allocated q, of "stub_sys True [''en'']"]
  show ?thesis unfolding d f .
qed

text \<open>
  C8. Every node whose text contains the lowercased query gives exactly one result, and
  its snippet is the slice of the text from \<open>max(0, i - 20)\<close> to
  \<open>min(N, i + L + 230)\<close>, where \<open>i\<close> is the offset of the first occurrence, \<open>L\<close> the
  length of the lowercased query and \<open>N\<close> the length of the text.
\<close>

theorem Search_snippets:
  assumes "allocated st toc" and "q0 \<noteq> []"
  shows "\<exists>rs. Search sys st (Some toc) q0 = Inr rs
           \<and> map Match rs
               = map (node_snippet (ToLower sys q0))
                   (filter (hit (ToLower sys q0)) (dir_nodes st toc))
                 @ concat (map (\<lambda>d. map (node_snippet (ToLower sys q0))
                                       (filter (hit (ToLower sys q0)) (child_nodes st d)))
                             (dir_nodes st toc))"
  unfolding Search_hits [OF assms] by (simp add: map_concat comp_def)

text \<open>\<^verbatim>\<open>short\<close> occurs at offset 29 of one text: the snippet starts at offset 9.\<close>

theorem Search_snippets_witness:
  "\<exists>rs. Search (stub_sys True [''en'']) search_state (Some search_toc) ''short'' = Inr rs
     \<and> map Match rs = ['' to install it, the short way'']"
proof -
  have q: "''short'' \<noteq> []" by simp
  have m: "map (node_snippet (ToLower (stub_sys True [''en'']) ''short''))
             (filter (hit (ToLower (stub_sys True [''en'']) ''short''))
                (dir_nodes search_state search_toc))
           @ concat (map (\<lambda>d. map (node_snippet (ToLower (stub_sys True [''en'']) ''short''))
                                 (filter (hit (ToLower (stub_sys True [''en'']) ''short''))
                                    (child_nodes search_state d)))
                       (dir_nodes search_state search_toc))
           = ['' to install it, the short way'']"
    by code_simp
  from Search_snippets [OF sample_allocated q, of "stub_sys True [''en'']"]
  show ?thesis unfolding m .
qed

subsection \<open>A reload whose loader fails\<close>

lemma initToc_failure: "initToc sys st root = (Inl e, st') \<Longrightarrow> st' = st"
  by (auto simp: initToc_def Let_def split: if_splits option.splits prod.splits)

lemma fetch_docs_disk_only: "fetch_docs sys st = (r, st1) \<Longrightarrow> st1 = st\<lparr>disk := disk st1\<rparr>"
  by (auto simp: fetch_docs_def split: if_splits option.splits prod.splits)

lemma fetch_docs_local: "DocsType sys \<noteq> ''remote'' \<Longrightarrow> fetch_docs sys st = (r, st1) \<Longrightarrow> st1 = st"
  by (auto simp: fetch_docs_def)

lemma fetch_docs_errors:
  "fetch_docs sys st = (Inl err, st1) \<Longrightarrow> err = AbsFailed \<or> err = PullFailed \<or> err = CloneFailed"
  by (auto simp: fetch_docs_def split: if_splits option.splits prod.splits)

lemma Search_heap:
  assumes h: "heap st' = heap st"
  shows "Search sys st' t q = Search sys st t q"
  unfolding Search_def h by (rule refl)



text \<open>What a reload that ended in the loader's error has changed: the disk at most.\<close>

lemma ReloadDocs_InitTocFailed_state:
  assumes "ReloadDocs sys st = Inr (Some (InitTocFailed e), st')"
  shows "Tocs st' = Tocs st \<and> heap st' = heap st \<and> st' = st\<lparr>disk := disk st'\<rparr>
         \<and> (\<forall>t q. Search sys st' t q = Search sys st t q)
         \<and> (disk st' = disk st \<longrightarrow> (\<forall>t name. GetDoc sys st' t name = GetDoc sys st t name))
         \<and> (DocsType sys \<noteq> ''remote'' \<longrightarrow> st' = st)"
proof -
  obtain r st1 where f: "fetch_docs sys st = (r, st1)" by (cases "fetch_docs sys st")
  from assms f obtain root where r: "r = Inr root"
    and i: "initToc sys st1 root = (Inl e, st')"
    by (cases r; cases "initToc sys st1 (projr r)")
       (auto simp: ReloadDocs_def split: if_splits sum.splits prod.splits
             dest: fetch_docs_errors)
  from initToc_failure [OF i] have e1: "st' = st1" .
  from fetch_docs_disk_only [OF f] e1 have d: "st' = st\<lparr>disk := disk st'\<rparr>" by simp
  have t: "Tocs st' = Tocs st" by (subst d) simp
  have h: "heap st' = heap st" by (subst d) simp
  have s: "\<forall>t q. Search sys st' t q = Search sys st t q"
    using Search_heap [OF h] by blast
  have g: "disk st' = disk st \<longrightarrow> (\<forall>t name. GetDoc sys st' t name = GetDoc sys st t name)"
  proof
    assume "disk st' = disk st"
    with d have "st' = st" by simp
    then show "\<forall>t name. GetDoc sys st' t name = GetDoc sys st t name" by simp
  qed
  have l: "DocsType sys \<noteq> ''remote'' \<longrightarrow> st' = st"
    using fetch_docs_local [OF _ f] e1 by blast
  from t h d s g l show ?thesis by blast
qed


lemma initToc_index_unparsable:
  "is_file (disk st) (path_join sys [root, ''TOC.ini''])
     \<Longrightarrow> ini_load (disk st) (path_join sys [root, ''TOC.ini'']) = None
     \<Longrightarrow> initToc sys st root = (Inl TocLoadFailed, st)"
  by (simp add: initToc_def)






end
